theory Spec2Isabelle
  imports Complex_Main
begin

section \<open>Conventions\<close>

text \<open>
  The scene is written in TypeScript on top of React and three.js. JavaScript numbers are
  modelled as \<^typ>\<open>real\<close>: rounding of IEEE doubles (and of the \<open>Float32Array\<close> buffers
  of the dust particles) is not part of the model. Where \<open>undefined\<close> can reach the
  arithmetic (the rotation of the tree), a number is a real or \<open>NaN\<close>.
  \<open>Math.random()\<close> is an input: the
  \<open>k\<close>-th call of a computation returns \<open>rnd k\<close>, a value of the half-open interval
  from 0 to 1. React refs (\<open>useRef\<close>) and state (\<open>useState\<close>) are fields of explicit
  state records, and every handler returns the updated record. Events put on the window
  (\<open>dispatchEvent\<close>) are returned as a list, in the order of dispatch.
\<close>

datatype TreeState = CHAOS | FORMED

section \<open>GestureController: the body of \<open>predictWebcam\<close>\<close>

text \<open>
  A landmark of the recognizer is a point of the video image, normalised to the unit
  square. Of a recognition result the code reads \<open>results.gestures[0][0].categoryName\<close>
  and the landmarks 0 (wrist) and 9 (base of the middle finger) of \<open>results.landmarks[0]\<close>;
  \<open>hand\<close> holds exactly these. The outcome of recognising one video frame is a
  \<open>hand option\<close>: \<open>None\<close> stands for every way into the \<open>else\<close> branch (the recognizer
  threw and \<open>results\<close> stayed undefined, or \<open>gestures\<close> or \<open>landmarks\<close> is empty).
\<close>

record landmark =
  lm_x :: real
  lm_y :: real

record hand =
  categoryName :: string
  wrist :: landmark
  middleFinger :: landmark

text \<open>
  The detail of a \<open>hand-move\<close> event is either \<open>{x, y, active: true}\<close> or
  \<open>{active: false}\<close>; the detail of a \<open>tree-spin\<close> event is \<open>{velocity}\<close>.
\<close>

datatype hand_move_detail = HandAt real real | HandGone

datatype event = HandMove hand_move_detail | TreeSpin real

record gesture_state =
  treeState :: TreeState
  previousHandX :: "real option"
  handPos :: "(real \<times> real) option"
  detectedGesture :: string
  lastVideoTime :: real

definition centerX :: "hand \<Rightarrow> real" where
  "centerX h = (lm_x (wrist h) + lm_x (middleFinger h)) / 2"

definition centerY :: "hand \<Rightarrow> real" where
  "centerY h = (lm_y (wrist h) + lm_y (middleFinger h)) / 2"

text \<open>Step 1 of the body: \<open>setTreeState\<close> is called for two category names only.\<close>

definition gestureTreeState :: "string \<Rightarrow> TreeState \<Rightarrow> TreeState" where
  "gestureTreeState name ts =
     (if name = ''Open_Palm'' then CHAOS
      else if name = ''Closed_Fist'' then FORMED
      else ts)"

text \<open>Step 3 of the body: the swipe test against the previous horizontal position.\<close>

definition swipeEvents :: "real option \<Rightarrow> real \<Rightarrow> event list" where
  "swipeEvents prev handX =
     (case prev of
        None \<Rightarrow> []
      | Some p \<Rightarrow>
          (let delta = handX - p
           in if \<bar>delta\<bar> > 0.008 then [TreeSpin (delta * 1.2)] else []))"

definition onResults :: "hand option \<Rightarrow> gesture_state \<Rightarrow> gesture_state \<times> event list" where
  "onResults results s =
     (case results of
        Some h \<Rightarrow>
          (let cx = centerX h;
               cy = centerY h;
               ndcX = (1 - cx) * 2 - 1;
               ndcY = - (cy * 2 - 1);
               handX = 1 - cx
           in (s\<lparr>treeState := gestureTreeState (categoryName h) (treeState s),
                  previousHandX := Some handX,
                  handPos := Some (1 - cx, cy),
                  detectedGesture := categoryName h\<rparr>,
               HandMove (HandAt ndcX ndcY) # swipeEvents (previousHandX s) handX))
      | None \<Rightarrow>
          (s\<lparr>previousHandX := None, handPos := None, detectedGesture := []\<rparr>,
           [HandMove HandGone]))"

text \<open>
  The whole callback: the body runs only when video and recognizer exist, the video has
  data (\<open>readyState >= 2\<close>) and its time differs from the last one processed.
\<close>

record video_frame =
  ready :: bool
  currentTime :: real
  results :: "hand option"

definition predictWebcam :: "video_frame \<Rightarrow> gesture_state \<Rightarrow> gesture_state \<times> event list" where
  "predictWebcam f s =
     (if ready f \<and> currentTime f \<noteq> lastVideoTime s
      then onResults (results f) (s\<lparr>lastVideoTime := currentTime f\<rparr>)
      else (s, []))"

text \<open>
  A stream of recognition outcomes, one per processed video frame: for each frame the
  tree state after it and the events it dispatched.
\<close>

fun gestureTrace :: "hand option list \<Rightarrow> gesture_state \<Rightarrow> (TreeState \<times> event list) list" where
  "gestureTrace [] s = []"
| "gestureTrace (r # rs) s =
     (let (s', evs) = onResults r s in (treeState s', evs) # gestureTrace rs s')"

fun spins :: "event list \<Rightarrow> real list" where
  "spins [] = []"
| "spins (TreeSpin v # es) = v # spins es"
| "spins (HandMove d # es) = spins es"

text \<open>A hand whose palm centre has mirrored horizontal position \<open>x\<close> (that is, \<open>handX = x\<close>).\<close>

definition handAtX :: "string \<Rightarrow> real \<Rightarrow> real \<Rightarrow> hand" where
  "handAtX name x y =
     \<lparr>categoryName = name,
      wrist = \<lparr>lm_x = 1 - x, lm_y = y\<rparr>,
      middleFinger = \<lparr>lm_x = 1 - x, lm_y = y\<rparr>\<rparr>"

section \<open>MagicalDust: the ambient particle attractor\<close>

text \<open>
  \<open>handTarget\<close> is the ref written by the listener of \<open>hand-move\<close>: an active detail
  replaces it, an inactive one only clears the flag.
\<close>

record hand_target =
  ht_x :: real
  ht_y :: real
  ht_active :: bool

definition onHandMove :: "hand_move_detail \<Rightarrow> hand_target \<Rightarrow> hand_target" where
  "onHandMove d ht =
     (case d of
        HandAt x y \<Rightarrow> \<lparr>ht_x = x, ht_y = y, ht_active = True\<rparr>
      | HandGone \<Rightarrow> ht\<lparr>ht_active := False\<rparr>)"


record attraction =
  targetX :: real
  targetY :: real
  isActive :: bool


text \<open>
  A particle is three consecutive cells of \<open>positions\<close> and of \<open>velocities\<close>.
\<close>

record particle =
  pos_x :: real
  pos_y :: real
  pos_z :: real
  vel_x :: real
  vel_y :: real
  vel_z :: real

text \<open>
  The velocity update of one particle (the \<open>if (!isActive) ... else ...\<close> of the loop
  body). It reads the position as it was at the start of the iteration. The result is
  the new velocity and the number of \<open>Math.random()\<close> calls made so far.
\<close>

definition updateVelocity ::
  "attraction \<Rightarrow> bool \<Rightarrow> (nat \<Rightarrow> real) \<Rightarrow> nat \<Rightarrow> particle \<Rightarrow> (real \<times> real \<times> real) \<times> nat" where
  "updateVelocity a handActive rnd k p =
     (if \<not> isActive a
      then ((vel_x p * 0.95, vel_y p * 0.95, vel_z p * 0.95), k)
      else
        (let dx = targetX a - pos_x p;
             dy = targetY a - pos_y p;
             dz = 8 - pos_z p;
             distSq = dx * dx + dy * dy + dz * dz;
             vy1 = vel_y p - 0.0001;
             force = (if handActive then 0.005 else 0.008);
             vx2 = (if distSq < 200 then vel_x p + (dx * force * 0.02 + dy * 0.002) else vel_x p);
             vy2 = (if distSq < 200 then vy1 + (dy * force * 0.02 - dx * 0.002) else vy1);
             vz2 = (if distSq < 200 then vel_z p + dz * force * 0.02 else vel_z p);
             vx3 = vx2 + (rnd k - 0.5) * 0.001;
             vy3 = vy2 + (rnd (k + 1) - 0.5) * 0.001;
             vz3 = vz2 + (rnd (k + 2) - 0.5) * 0.001
         in ((vx3 * 0.97, vy3 * 0.97, vz3 * 0.97), k + 3)))"

text \<open>
  One iteration of the loop: velocity update, integration, respawn. The respawn test
  reads \<open>py\<close>, the local copied from \<open>positions[idx + 1]\<close> at the top of the
  iteration, before the integration.
\<close>

definition stepParticle ::
  "attraction \<Rightarrow> bool \<Rightarrow> (nat \<Rightarrow> real) \<Rightarrow> nat \<Rightarrow> particle \<Rightarrow> particle \<times> nat" where
  "stepParticle a handActive rnd k p =
     (let py = pos_y p;
          (v, k1) = updateVelocity a handActive rnd k p;
          (vx, vy, vz) = v
      in if py < - 15
         then (\<lparr>pos_x = (rnd k1 - 0.5) * 20, pos_y = 15, pos_z = (rnd (k1 + 1) - 0.5) * 20,
                vel_x = 0, vel_y = 0, vel_z = 0\<rparr>, k1 + 2)
         else (\<lparr>pos_x = pos_x p + vx, pos_y = pos_y p + vy, pos_z = pos_z p + vz,
                vel_x = vx, vel_y = vy, vel_z = vz\<rparr>, k1))"



section \<open>Ornaments and PhotoFrames: target placement\<close>

text \<open>
  \<open>CONSTANTS\<close> is imported from a module that is not part of the sources at hand, so
  the tree's height and radius are parameters.
\<close>

record constants =
  TREE_HEIGHT :: real
  TREE_RADIUS :: real

datatype ornament_type = Sphere | Box

record target_transform =
  t_pos :: "real \<times> real \<times> real"
  t_rot :: "real \<times> real \<times> real"
  t_scale :: real

text \<open>
  Each iteration of the loop of \<open>generateTransformData\<close> calls \<open>Math.random()\<close> ten
  times: radius, theta, phi, three chaos rotations, chaos scale, angle jitter, target
  scale, colour. The angle is passed to \<open>Math.cos\<close> and \<open>Math.sin\<close> as it is.
\<close>

definition ornamentAngle :: "(nat \<Rightarrow> real) \<Rightarrow> nat \<Rightarrow> real" where
  "ornamentAngle rnd i = real i * 137.5 + rnd (10 * i + 7) * 0.5"

definition ornamentTarget ::
  "constants \<Rightarrow> (nat \<Rightarrow> real) \<Rightarrow> nat \<Rightarrow> ornament_type \<Rightarrow> nat \<Rightarrow> target_transform" where
  "ornamentTarget c rnd count type i =
     (let height = TREE_HEIGHT c;
          radius = TREE_RADIUS c + (if type = Box then 0.8 else 0.5);
          t = real i / real count;
          hNormalized = (if type = Box then t powr 1.1 else t);
          h = hNormalized * height - height / 2;
          rAtHeight = (1 - (h + height / 2) / height) * radius;
          angle = ornamentAngle rnd i
      in \<lparr>t_pos = (cos angle * rAtHeight, h, sin angle * rAtHeight),
          t_rot = (0, angle, 0),
          t_scale = (if type = Box then 0.6 + rnd (10 * i + 8) * 0.3
                     else 0.4 + rnd (10 * i + 8) * 0.3)\<rparr>)"

definition generateTargetData ::
  "constants \<Rightarrow> (nat \<Rightarrow> real) \<Rightarrow> nat \<Rightarrow> ornament_type \<Rightarrow> target_transform list" where
  "generateTargetData c rnd count type = map (ornamentTarget c rnd count type) [0..<count]"

text \<open>
  The loop of \<open>PhotoFrames\<close> also draws ten numbers per frame: radius, theta, phi, three
  chaos rotations, height jitter, depth jitter and two tilts. Before the loop,
  \<open>new THREE.Object3D()\<close> draws four numbers for the identifier of the object, so the
  draws of frame \<open>i\<close> start at \<open>10 * i + 4\<close>.
\<close>

definition frameAngle :: "nat \<Rightarrow> real" where
  "frameAngle i = real i * 137.5 * (pi / 180)"

definition frameHeight :: "constants \<Rightarrow> (nat \<Rightarrow> real) \<Rightarrow> nat \<Rightarrow> nat \<Rightarrow> real" where
  "frameHeight c rnd count i =
     (let height = TREE_HEIGHT c;
          t = real i / real count;
          heightJitter = (rnd (10 * i + 10) - 0.5) * 1.5;
          h = (t * 0.7 + 0.15) * height - height / 2 + heightJitter
      in max (- height / 2 + 1) (min (height / 2 - 2) h))"

definition frameTargetPos ::
  "constants \<Rightarrow> (nat \<Rightarrow> real) \<Rightarrow> nat \<Rightarrow> nat \<Rightarrow> real \<times> real \<times> real" where
  "frameTargetPos c rnd count i =
     (let height = TREE_HEIGHT c;
          baseRadius = TREE_RADIUS c + 0.8;
          h = frameHeight c rnd count i;
          rAtHeight = (1 - (h + height / 2) / height) * baseRadius;
          depthJitter = (rnd (10 * i + 11) - 0.5) * 0.4;
          finalRadius = rAtHeight + depthJitter;
          angle = frameAngle i
      in (cos angle * finalRadius, h, sin angle * finalRadius))"

definition frameTargets ::
  "constants \<Rightarrow> (nat \<Rightarrow> real) \<Rightarrow> nat \<Rightarrow> (real \<times> real \<times> real) list" where
  "frameTargets c rnd count = map (frameTargetPos c rnd count) [0..<count]"

text \<open>The golden angle of 137.5 degrees, in radians.\<close>

definition goldenAngle :: real where
  "goldenAngle = 137.5 * pi / 180"

section \<open>ChristmasTree: progress, rotation physics, focus\<close>

text \<open>
  \<open>THREE.MathUtils.lerp\<close> and \<open>THREE.MathUtils.damp\<close> belong to three.js, which is
  a dependency and not code of this repository; they are written here as three.js
  defines them: \<open>lerp(x, y, t) = (1 - t) * x + t * y\<close> and
  \<open>damp(x, y, lambda, dt) = lerp(x, y, 1 - Math.exp(-lambda * dt))\<close>.
\<close>

definition lerp :: "real \<Rightarrow> real \<Rightarrow> real \<Rightarrow> real" where
  "lerp x y t = (1 - t) * x + t * y"

definition damp :: "real \<Rightarrow> real \<Rightarrow> real \<Rightarrow> real \<Rightarrow> real" where
  "damp x y lambda dt = lerp x y (1 - exp (- lambda * dt))"

text \<open>
  The velocities and rotation angles of the tree are JavaScript numbers that can become
  \<open>NaN\<close>: a pointer coordinate that resolves to \<open>undefined\<close> turns into \<open>NaN\<close>
  under subtraction. Arithmetic with \<open>NaN\<close> gives \<open>NaN\<close>, every comparison with
  \<open>NaN\<close> is false, and \<open>undefined\<close> becomes \<open>NaN\<close> when it is used as a number.
\<close>

datatype jsnum = Num real | NaN


fun jsAdd :: "jsnum \<Rightarrow> jsnum \<Rightarrow> jsnum" where
  "jsAdd (Num a) (Num b) = Num (a + b)"
| "jsAdd (Num a) NaN = NaN"
| "jsAdd NaN b = NaN"


fun jsTimes :: "jsnum \<Rightarrow> real \<Rightarrow> jsnum" where
  "jsTimes (Num a) c = Num (a * c)"
| "jsTimes NaN c = NaN"

fun jsAbsLess :: "jsnum \<Rightarrow> real \<Rightarrow> bool" where
  "jsAbsLess (Num a) c = (\<bar>a\<bar> < c)"
| "jsAbsLess NaN c = False"

fun jsLerp :: "jsnum \<Rightarrow> real \<Rightarrow> real \<Rightarrow> jsnum" where
  "jsLerp (Num x) y t = Num (lerp x y t)"
| "jsLerp NaN y t = NaN"

record rotation =
  rot_x :: jsnum
  rot_y :: jsnum

text \<open>
  The refs and the state of the component. \<open>velocityY\<close> turns the tree about its
  vertical axis (yaw), \<open>velocityX\<close> about the horizontal one (pitch). \<open>lastPointer\<close>
  holds what the coordinates of the last event resolved to, a number or \<open>undefined\<close>
  each. \<open>group\<close> is \<open>groupRef.current\<close>, absent until the group is mounted.
\<close>

record tree =
  velocityY :: jsnum
  velocityX :: jsnum
  isDragging :: bool
  lastPointer :: "real option \<times> real option"
  progress :: real
  group :: "rotation option"
  focusedPhotoIndex :: "nat option"

text \<open>
  A pointer or touch event, as far as the handlers read it. \<open>clientX\<close> and \<open>clientY\<close>
  are numbers on a mouse or pointer event and absent on a touch event; \<open>touches\<close> is
  the touch list of a touch event and absent otherwise.
\<close>

record touch =
  touch_clientX :: real
  touch_clientY :: real

record pointer_event =
  clientX :: "real option"
  clientY :: "real option"
  touches :: "touch list option"
  defaultPrevented :: bool

datatype error = TypeError

text \<open>
  The coordinate expression \<open>e.clientX || (e.touches && e.touches[0].clientX)\<close>. The
  left operand is falsy when it is absent or 0; then the right operand is the value of
  the expression: \<open>undefined\<close> without a touch list, the coordinate of the first touch
  otherwise. Reading the coordinate of the first touch of an empty list raises a
  \<open>TypeError\<close>.
\<close>

definition falsy :: "real option \<Rightarrow> bool" where
  "falsy c = (c = None \<or> c = Some 0)"

definition firstTouch :: "touch list option \<Rightarrow> (touch \<Rightarrow> real) \<Rightarrow> error + real option" where
  "firstTouch ts coord =
     (case ts of
        None \<Rightarrow> Inr None
      | Some [] \<Rightarrow> Inl TypeError
      | Some (t # rest) \<Rightarrow> Inr (Some (coord t)))"

definition resolveClient ::
  "real option \<Rightarrow> touch list option \<Rightarrow> (touch \<Rightarrow> real) \<Rightarrow> error + real option" where
  "resolveClient c ts coord = (if falsy c then firstTouch ts coord else Inr c)"

text \<open>Both handlers resolve \<open>clientX\<close> first and \<open>clientY\<close> second.\<close>

definition eventClient :: "pointer_event \<Rightarrow> error + (real option \<times> real option)" where
  "eventClient e =
     (case resolveClient (clientX e) (touches e) touch_clientX of
        Inl err \<Rightarrow> Inl err
      | Inr cx \<Rightarrow>
          (case resolveClient (clientY e) (touches e) touch_clientY of
             Inl err \<Rightarrow> Inl err
           | Inr cy \<Rightarrow> Inr (cx, cy)))"

text \<open>
  A handler returns the state it leaves behind and the exception it raised, if any.
  \<open>handlePointerDown\<close> sets \<open>isDragging\<close> before it resolves the coordinates;
  \<open>handlePointerMove\<close> resolves them before it writes anything.
\<close>

definition handlePointerDown :: "pointer_event \<Rightarrow> tree \<Rightarrow> tree \<times> error option" where
  "handlePointerDown e s =
     (if defaultPrevented e then (s, None)
      else
        (case eventClient e of
           Inl err \<Rightarrow> (s\<lparr>isDragging := True\<rparr>, Some err)
         | Inr client \<Rightarrow>
             (s\<lparr>isDragging := True, lastPointer := client,
                velocityY := Num 0, velocityX := Num 0\<rparr>, None)))"


definition handlePointerUp :: "tree \<Rightarrow> tree" where
  "handlePointerUp s = s\<lparr>isDragging := False\<rparr>"

definition onSpin :: "real \<Rightarrow> tree \<Rightarrow> tree" where
  "onSpin velocity s =
     (if \<not> isDragging s then s\<lparr>velocityY := jsAdd (velocityY s) (Num velocity)\<rparr> else s)"

text \<open>Part 1 of the frame callback: the progress transition.\<close>

definition progressTarget :: "TreeState \<Rightarrow> real" where
  "progressTarget state = (if state = FORMED then 1 else 0)"

definition frameProgress :: "TreeState \<Rightarrow> real \<Rightarrow> real \<Rightarrow> real" where
  "frameProgress state p delta = damp p (progressTarget state) 2.0 delta"

text \<open>Part 2 of the frame callback: rotation by the velocities, friction, idle spin.\<close>

definition idleSpin :: "TreeState \<Rightarrow> rotation \<Rightarrow> rotation" where
  "idleSpin state g =
     (if state = FORMED
      then \<lparr>rot_x = jsLerp (rot_x g) 0 0.05, rot_y = jsAdd (rot_y g) (Num 0.001)\<rparr>
      else \<lparr>rot_x = jsAdd (rot_x g) (Num 0.0003), rot_y = jsAdd (rot_y g) (Num 0.0005)\<rparr>)"

definition framePhysics :: "TreeState \<Rightarrow> tree \<Rightarrow> tree" where
  "framePhysics state s =
     (case group s of
        None \<Rightarrow> s
      | Some g \<Rightarrow>
          if isDragging s then s
          else
            (let g1 = \<lparr>rot_x = jsAdd (rot_x g) (velocityX s),
                       rot_y = jsAdd (rot_y g) (velocityY s)\<rparr>;
                 friction = 0.98;
                 vY1 = jsTimes (velocityY s) friction;
                 vX1 = jsTimes (velocityX s) friction;
                 vY2 = (if jsAbsLess vY1 0.0001 then Num 0 else vY1);
                 vX2 = (if jsAbsLess vX1 0.0001 then Num 0 else vX1);
                 g2 = (if jsAbsLess vY2 0.001 \<and> jsAbsLess vX2 0.001
                       then idleSpin state g1 else g1)
             in s\<lparr>velocityY := vY2, velocityX := vX2, group := Some g2\<rparr>))"

definition useFrame :: "TreeState \<Rightarrow> real \<Rightarrow> tree \<Rightarrow> tree" where
  "useFrame state delta s =
     framePhysics state (s\<lparr>progress := frameProgress state (progress s) delta\<rparr>)"

text \<open>
  The progress after each of a sequence of frames with the tree state held fixed, and
  the progress after the last of them.
\<close>

fun progressTrace :: "TreeState \<Rightarrow> real \<Rightarrow> real list \<Rightarrow> real list" where
  "progressTrace state p [] = []"
| "progressTrace state p (dt # dts) =
     frameProgress state p dt # progressTrace state (frameProgress state p dt) dts"

fun progressAfter :: "TreeState \<Rightarrow> real \<Rightarrow> real list \<Rightarrow> real" where
  "progressAfter state p [] = p"
| "progressAfter state p (dt # dts) = progressAfter state (frameProgress state p dt) dts"

text \<open>
  A bound on the simulated time after which the progress is within \<open>eps\<close> of its
  target: half the logarithm of \<open>1 / eps\<close>, and no time at all for \<open>eps\<close> of 1 or more.
\<close>

definition settleTime :: "real \<Rightarrow> real" where
  "settleTime eps = max 0 (ln (1 / eps) / 2)"

text \<open>
  Focus: \<open>PhotoFrames\<close> gives frame \<open>i\<close> the flag \<open>focusedIndex === i\<close> and the click
  handler below; \<open>onBackgroundClick\<close> is the handler of \<open>onPointerMissed\<close>.
\<close>

definition isFocused :: "tree \<Rightarrow> nat \<Rightarrow> bool" where
  "isFocused s i = (focusedPhotoIndex s = Some i)"

definition onFrameClick :: "nat \<Rightarrow> tree \<Rightarrow> tree" where
  "onFrameClick i s =
     s\<lparr>focusedPhotoIndex := (if focusedPhotoIndex s = Some i then None else Some i)\<rparr>"

definition onBackgroundClick :: "tree \<Rightarrow> tree" where
  "onBackgroundClick s =
     (if \<not> isDragging s \<and> focusedPhotoIndex s \<noteq> None
      then s\<lparr>focusedPhotoIndex := None\<rparr>
      else s)"

section \<open>Theorems: gesture mapping\<close>

lemma spins_swipeEvents:
  "spins (swipeEvents prev x) =
     (case prev of None \<Rightarrow> []
      | Some p \<Rightarrow> if \<bar>x - p\<bar> > 0.008 then [(x - p) * 1.2] else [])"
  by (simp add: swipeEvents_def Let_def split: option.split)

lemma onResults_Some_prev:
  "previousHandX (fst (onResults (Some h) s)) = Some (1 - centerX h)"
  by (simp add: onResults_def Let_def)

lemma onResults_Some_spins:
  "spins (snd (onResults (Some h) s)) =
     (case previousHandX s of None \<Rightarrow> []
      | Some p \<Rightarrow> if \<bar>(1 - centerX h) - p\<bar> > 0.008 then [((1 - centerX h) - p) * 1.2] else [])"
  by (simp add: onResults_def Let_def spins_swipeEvents)

lemma centerX_handAtX: "centerX (handAtX name x y) = 1 - x"
  by (simp add: centerX_def handAtX_def)

text \<open>
  C5. A recognised hand sets the tree state to CHAOS when its category is \<open>Open_Palm\<close>, to
  FORMED when it is \<open>Closed_Fist\<close>, and leaves it as it is for every other category; a
  frame without a hand leaves it as it is too. The stream Open_Palm, Open_Palm,
  Closed_Fist, started in CHAOS, gives the tree states CHAOS, CHAOS, FORMED, whatever
  the landmarks and the rest of the state are.
\<close>

theorem gesture_sets_tree_state:
  "treeState (fst (onResults (Some h) s)) =
     (if categoryName h = ''Open_Palm'' then CHAOS
      else if categoryName h = ''Closed_Fist'' then FORMED
      else treeState s)
   \<and> treeState (fst (onResults None s)) = treeState s
   \<and> map fst (gestureTrace
        [Some (h1\<lparr>categoryName := ''Open_Palm''\<rparr>),
         Some (h2\<lparr>categoryName := ''Open_Palm''\<rparr>),
         Some (h3\<lparr>categoryName := ''Closed_Fist''\<rparr>)]
        (s\<lparr>treeState := CHAOS\<rparr>)) = [CHAOS, CHAOS, FORMED]"
  by (simp add: onResults_def gestureTreeState_def Let_def)

theorem gesture_sets_tree_state_witness:
  "map fst (gestureTrace
      [Some (handAtX ''Open_Palm'' (1/2) (1/2)),
       Some (handAtX ''Open_Palm'' (1/2) (1/2)),
       Some (handAtX ''Closed_Fist'' (1/2) (1/2))]
      \<lparr>treeState = CHAOS, previousHandX = None, handPos = None,
       detectedGesture = [], lastVideoTime = -1\<rparr>) = [CHAOS, CHAOS, FORMED]
   \<and> treeState (fst (onResults (Some (handAtX ''Victory'' (1/2) (1/2)))
      \<lparr>treeState = FORMED, previousHandX = None, handPos = None,
       detectedGesture = [], lastVideoTime = -1\<rparr>)) = FORMED"
  using gesture_sets_tree_state
    [of "handAtX ''Victory'' (1/2) (1/2)"
        "\<lparr>treeState = FORMED, previousHandX = None, handPos = None,
          detectedGesture = [], lastVideoTime = -1\<rparr>"
        "handAtX ''Open_Palm'' (1/2) (1/2)"
        "handAtX ''Open_Palm'' (1/2) (1/2)"
        "handAtX ''Closed_Fist'' (1/2) (1/2)"]
  by (simp add: handAtX_def)

text \<open>
  C6. For two consecutive detections the second one dispatches a \<open>tree-spin\<close> event
  exactly when the absolute difference of the two horizontal hand positions exceeds
  0.008, and the velocity of that event is the difference times 1.2. With differences
  0.002, 0.003 and 0.01 between four consecutive detections, the first two differences
  dispatch nothing and the third dispatches one event, of velocity 0.012.
\<close>

theorem swipe_emits_iff_over_threshold:
  "spins (snd (onResults (Some h2) (fst (onResults (Some h1) s)))) =
     (let delta = (1 - centerX h2) - (1 - centerX h1)
      in if \<bar>delta\<bar> > 0.008 then [delta * 1.2] else [])
   \<and> tl (map (\<lambda>r. spins (snd r))
        (gestureTrace
           [Some (handAtX g0 x y0),
            Some (handAtX g1 (x + 0.002) y1),
            Some (handAtX g2 (x + 0.002 + 0.003) y2),
            Some (handAtX g3 (x + 0.002 + 0.003 + 0.01) y3)] s))
      = [[], [], [0.01 * 1.2]]"
  by (simp add: onResults_Some_spins onResults_Some_prev centerX_handAtX Let_def
      split_beta spins_swipeEvents)

theorem swipe_emits_iff_over_threshold_witness:
  "tl (map (\<lambda>r. spins (snd r))
        (gestureTrace
           [Some (handAtX ''None'' (1/2) (1/2)),
            Some (handAtX ''None'' (1/2 + 0.002) (1/2)),
            Some (handAtX ''None'' (1/2 + 0.002 + 0.003) (1/2)),
            Some (handAtX ''None'' (1/2 + 0.002 + 0.003 + 0.01) (1/2))]
           \<lparr>treeState = CHAOS, previousHandX = None, handPos = None,
            detectedGesture = [], lastVideoTime = -1\<rparr>))
      = [[], [], [0.012]]"
  using swipe_emits_iff_over_threshold
    [of "handAtX ''None'' (1/2) (1/2)" "handAtX ''None'' (1/2) (1/2)"
        "\<lparr>treeState = CHAOS, previousHandX = None, handPos = None,
            detectedGesture = [], lastVideoTime = -1\<rparr>"
        "''None''" "1/2" "1/2" "''None''" "1/2" "''None''" "1/2" "''None''" "1/2"]
  by simp

text \<open>
  C8. A frame without a hand dispatches \<open>hand-move\<close> with \<open>active: false\<close>, which
  clears the active flag of the dust's attraction target, and forgets the previous
  horizontal hand position; the next detection dispatches no \<open>tree-spin\<close> event,
  wherever that hand is.
\<close>

theorem hand_loss_resets_tracking:
  "snd (onResults None s) = [HandMove HandGone]
   \<and> ht_active (onHandMove HandGone ht) = False
   \<and> previousHandX (fst (onResults None s)) = None
   \<and> spins (snd (onResults (Some h) (fst (onResults None s)))) = []"
  by (simp add: onResults_Some_spins) (simp add: onResults_def onHandMove_def)


theorem hand_loss_resets_tracking_witness:
  "spins (snd (onResults (Some (handAtX ''None'' (9/10) (1/2)))
     (fst (onResults None
       \<lparr>treeState = CHAOS, previousHandX = Some (1/10), handPos = Some (1/10, 1/2),
        detectedGesture = ''None'', lastVideoTime = 0\<rparr>)))) = []
   \<and> spins (snd (onResults (Some (handAtX ''None'' (9/10) (1/2)))
       \<lparr>treeState = CHAOS, previousHandX = Some (1/10), handPos = Some (1/10, 1/2),
        detectedGesture = ''None'', lastVideoTime = 0\<rparr>)) = [0.96]"
  using hand_loss_resets_tracking
    [of "\<lparr>treeState = CHAOS, previousHandX = Some (1/10), handPos = Some (1/10, 1/2),
        detectedGesture = ''None'', lastVideoTime = 0\<rparr>"
        "\<lparr>ht_x = 0, ht_y = 0, ht_active = True\<rparr>"
        "handAtX ''None'' (9/10) (1/2)"]
  by (simp add: onResults_Some_spins centerX_handAtX)

section \<open>Theorems: progress controller\<close>

lemma frameProgress_formula:
  "frameProgress state p delta = p + (progressTarget state - p) * (1 - exp (- 2.0 * delta))"
  by (simp add: frameProgress_def damp_def lerp_def algebra_simps)

lemma frameProgress_gap:
  "frameProgress state p delta - progressTarget state
     = (p - progressTarget state) * exp (- (2 * delta))"
  by (simp add: frameProgress_def damp_def lerp_def algebra_simps)

lemma progressAfter_gap:
  "progressAfter state p dts - progressTarget state
     = (p - progressTarget state) * exp (- (2 * sum_list dts))"
proof (induction dts arbitrary: p)
  case Nil
  show ?case by simp
next
  case (Cons dt dts)
  have "progressAfter state (frameProgress state p dt) dts - progressTarget state
          = (frameProgress state p dt - progressTarget state) * exp (- (2 * sum_list dts))"
    by (rule Cons.IH)
  also have "\<dots> = (p - progressTarget state) * (exp (- (2 * dt)) * exp (- (2 * sum_list dts)))"
    by (simp add: frameProgress_gap)
  also have "exp (- (2 * dt)) * exp (- (2 * sum_list dts)) = exp (- (2 * sum_list (dt # dts)))"
    by (simp add: exp_add [symmetric] algebra_simps)
  finally show ?case by simp
qed

lemma useFrame_progress:
  "progress (useFrame state delta s) = frameProgress state (progress s) delta"
  by (simp add: useFrame_def framePhysics_def Let_def split: option.split)

lemma progressAfter_last: "progressAfter state p dts = last (p # progressTrace state p dts)"
  by (induction dts arbitrary: p) simp_all

lemma exp_decay_unit:
  fixes d :: real
  assumes "0 \<le> d"
  shows "0 < exp (- (2 * d))" and "exp (- (2 * d)) \<le> 1"
  using assms by simp_all

lemma frameProgress_formed_step:
  assumes "0 \<le> p" "p \<le> 1" "0 \<le> dt"
  shows "p \<le> frameProgress FORMED p dt \<and> frameProgress FORMED p dt \<le> 1"
proof -
  define e where "e = exp (- (2 * dt))"
  have e: "0 < e" "e \<le> 1" using exp_decay_unit [OF assms(3)] by (simp_all add: e_def)
  have eq: "frameProgress FORMED p dt = 1 - (1 - p) * e"
    using frameProgress_gap [of FORMED p dt] by (simp add: progressTarget_def e_def algebra_simps)
  have "(1 - p) * e \<le> (1 - p) * 1"
    using e assms by (intro mult_left_mono) simp_all
  moreover have "0 \<le> (1 - p) * e" using e assms by simp
  ultimately show ?thesis unfolding eq by simp
qed

lemma frameProgress_chaos_step:
  assumes "0 \<le> p" "p \<le> 1" "0 \<le> dt"
  shows "0 \<le> frameProgress CHAOS p dt \<and> frameProgress CHAOS p dt \<le> p"
proof -
  define e where "e = exp (- (2 * dt))"
  have e: "0 < e" "e \<le> 1" using exp_decay_unit [OF assms(3)] by (simp_all add: e_def)
  have eq: "frameProgress CHAOS p dt = p * e"
    using frameProgress_gap [of CHAOS p dt] by (simp add: progressTarget_def e_def)
  have "p * e \<le> p * 1"
    using e assms by (intro mult_left_mono) simp_all
  moreover have "0 \<le> p * e" using e assms by simp
  ultimately show ?thesis unfolding eq by simp
qed

lemma progressTrace_formed:
  assumes "0 \<le> p" "p \<le> 1" "\<forall>dt \<in> set dts. 0 \<le> dt"
  shows "sorted (p # progressTrace FORMED p dts)
         \<and> (\<forall>q \<in> set (progressTrace FORMED p dts). p \<le> q \<and> q \<le> 1)"
  using assms
proof (induction dts arbitrary: p)
  case Nil
  show ?case by simp
next
  case (Cons dt dts)
  let ?q = "frameProgress FORMED p dt"
  have step: "p \<le> ?q \<and> ?q \<le> 1"
    using Cons.prems by (intro frameProgress_formed_step) simp_all
  have ih: "sorted (?q # progressTrace FORMED ?q dts)
            \<and> (\<forall>r \<in> set (progressTrace FORMED ?q dts). ?q \<le> r \<and> r \<le> 1)"
    using Cons.prems step by (intro Cons.IH) simp_all
  show ?case using step ih by force
qed

lemma progressTrace_chaos:
  assumes "0 \<le> p" "p \<le> 1" "\<forall>dt \<in> set dts. 0 \<le> dt"
  shows "sorted_wrt (\<lambda>a b. b \<le> a) (p # progressTrace CHAOS p dts)
         \<and> (\<forall>q \<in> set (progressTrace CHAOS p dts). 0 \<le> q \<and> q \<le> p)"
  using assms
proof (induction dts arbitrary: p)
  case Nil
  show ?case by simp
next
  case (Cons dt dts)
  let ?q = "frameProgress CHAOS p dt"
  have step: "0 \<le> ?q \<and> ?q \<le> p"
    using Cons.prems by (intro frameProgress_chaos_step) simp_all
  have ih: "sorted_wrt (\<lambda>a b. b \<le> a) (?q # progressTrace CHAOS ?q dts)
            \<and> (\<forall>r \<in> set (progressTrace CHAOS ?q dts). 0 \<le> r \<and> r \<le> ?q)"
    using Cons.prems step by (intro Cons.IH) simp_all
  show ?case using step ih by force
qed

lemma settleTime_bound:
  assumes "0 < eps" "settleTime eps \<le> t"
  shows "exp (- (2 * t)) \<le> eps"
proof -
  have "ln (1 / eps) / 2 \<le> t" using assms(2) by (simp add: settleTime_def)
  then have "- (2 * t) \<le> ln eps" using assms(1) by (simp add: ln_div)
  then have "exp (- (2 * t)) \<le> exp (ln eps)" by (simp only: exp_le_cancel_iff)
  then show ?thesis using assms(1) by simp
qed

lemma progress_settles:
  assumes "0 \<le> p" "p \<le> 1" "0 < eps" "settleTime eps \<le> sum_list dts"
  shows "\<bar>progressAfter state p dts - progressTarget state\<bar> \<le> eps"
proof -
  have gap: "\<bar>p - progressTarget state\<bar> \<le> 1"
    using assms(1,2) by (simp add: progressTarget_def)
  have "\<bar>progressAfter state p dts - progressTarget state\<bar>
          = \<bar>p - progressTarget state\<bar> * exp (- (2 * sum_list dts))"
    by (simp add: progressAfter_gap abs_mult)
  also have "\<dots> \<le> 1 * exp (- (2 * sum_list dts))"
    using gap by (intro mult_right_mono) simp_all
  also have "\<dots> \<le> eps"
    using settleTime_bound [OF assms(3,4)] by simp
  finally show ?thesis .
qed

text \<open>
  C2. The frame callback replaces the progress \<open>q\<close> by
  \<open>q + (target - q) * (1 - exp (-2 * delta))\<close>, where the target is 1 for FORMED and
  0 for CHAOS. For a starting progress between 0 and 1 and frame times that are not
  negative, with the tree state held fixed: the progress values never decrease under
  FORMED and never increase under CHAOS, all of them lie between 0 and 1 (so none passes
  its target), and once the frame times add up to \<open>settleTime eps\<close> the progress is
  within \<open>eps\<close> of the target.
\<close>

theorem progress_damped_approach:
  assumes "0 \<le> p" and "p \<le> 1" and "\<forall>dt \<in> set dts. 0 \<le> dt" and "0 < eps"
  shows "progress (useFrame state delta s)
           = progress s + (progressTarget state - progress s) * (1 - exp (- 2.0 * delta))
         \<and> progressTarget FORMED = 1 \<and> progressTarget CHAOS = 0
         \<and> sorted (p # progressTrace FORMED p dts)
         \<and> sorted_wrt (\<lambda>a b. b \<le> a) (p # progressTrace CHAOS p dts)
         \<and> (\<forall>r \<in> set (progressTrace state p dts). 0 \<le> r \<and> r \<le> 1)
         \<and> progressAfter state p dts = last (p # progressTrace state p dts)
         \<and> (settleTime eps \<le> sum_list dts
              \<longrightarrow> \<bar>progressAfter state p dts - progressTarget state\<bar> \<le> eps)"
proof -
  have range: "\<forall>r \<in> set (progressTrace state p dts). 0 \<le> r \<and> r \<le> 1"
  proof (cases state)
    case CHAOS
    then show ?thesis using progressTrace_chaos [OF assms(1-3)] assms(2) by fastforce
  next
    case FORMED
    then show ?thesis using progressTrace_formed [OF assms(1-3)] assms(1) by fastforce
  qed
  have settle: "settleTime eps \<le> sum_list dts
      \<longrightarrow> \<bar>progressAfter state p dts - progressTarget state\<bar> \<le> eps"
    using progress_settles [OF assms(1,2,4)] by blast
  have targets: "progressTarget FORMED = 1" "progressTarget CHAOS = 0"
    by (simp_all add: progressTarget_def)
  have up: "sorted (p # progressTrace FORMED p dts)"
    using progressTrace_formed [OF assms(1-3)] by blast
  have down: "sorted_wrt (\<lambda>a b. b \<le> a) (p # progressTrace CHAOS p dts)"
    using progressTrace_chaos [OF assms(1-3)] by blast
  have frame: "progress (useFrame state delta s)
      = progress s + (progressTarget state - progress s) * (1 - exp (- 2.0 * delta))"
    by (simp only: useFrame_progress frameProgress_formula)
  show ?thesis
    using frame targets up down range progressAfter_last [of state p dts] settle
    by blast
qed

theorem progress_damped_approach_witness:
  "progressTrace FORMED 0 [ln 2 / 2, ln 2 / 2] = [1/2, 3/4]
   \<and> sorted [0, 1/2, 3/4 :: real]
   \<and> settleTime (1/4) \<le> sum_list [ln 2 / 2, ln 2 / 2]
   \<and> \<bar>progressAfter FORMED 0 [ln 2 / 2, ln 2 / 2] - 1\<bar> \<le> 1/4"
proof -
  have e: "exp (- ln 2) = (1/2 :: real)" by (simp add: exp_minus inverse_eq_divide)
  have tr: "progressTrace FORMED 0 [ln 2 / 2, ln 2 / 2] = [1/2, 3/4]"
    by (simp add: frameProgress_formula progressTarget_def e)
  have st: "settleTime (1/4) \<le> sum_list [ln 2 / 2, ln 2 / 2]"
    using ln_realpow [of 2 2] by (simp add: settleTime_def)
  have nn: "\<forall>dt \<in> set [ln 2 / 2, ln 2 / 2 :: real]. 0 \<le> dt" by simp
  show ?thesis
    using progress_damped_approach [of 0 "[ln 2 / 2, ln 2 / 2]" "1/4" FORMED, OF _ _ nn] tr st
    by (simp add: progressTarget_def)
qed

section \<open>Theorems: drag physics and focus\<close>







text \<open>
  C7, as stated, fails for the background click: the handler clears the selection only
  when no drag is in progress. With a drag in progress and frame 0 focused, a background
  click leaves frame 0 focused.
\<close>

theorem background_click_while_dragging_counterexample:
  "focusedPhotoIndex (onBackgroundClick
     \<lparr>velocityY = Num 0, velocityX = Num 0, isDragging = True,
      lastPointer = (Some 0, Some 0),
      progress = 1, group = None, focusedPhotoIndex = Some 0\<rparr>) \<noteq> None"
  by (simp add: onBackgroundClick_def)

text \<open>
  C7, amended. The selection is a single optional index, so no two different frames are
  focused together. Clicking frame \<open>b\<close> while another frame \<open>a\<close> is focused makes
  \<open>b\<close> the focused frame and \<open>a\<close> no longer focused; clicking the focused frame clears
  the selection. A background click clears the selection when no drag is in progress and
  leaves it as it is during a drag.
\<close>

theorem focus_single_selection:
  "(isFocused s i \<and> isFocused s j \<longrightarrow> i = j)
   \<and> (focusedPhotoIndex s = Some a \<and> b \<noteq> a
        \<longrightarrow> focusedPhotoIndex (onFrameClick b s) = Some b
            \<and> isFocused (onFrameClick b s) b \<and> \<not> isFocused (onFrameClick b s) a)
   \<and> (focusedPhotoIndex s = Some a \<longrightarrow> focusedPhotoIndex (onFrameClick a s) = None)
   \<and> focusedPhotoIndex (onBackgroundClick s)
        = (if isDragging s then focusedPhotoIndex s else None)"
  by (auto simp add: isFocused_def onFrameClick_def onBackgroundClick_def)

theorem focus_single_selection_witness:
  "focusedPhotoIndex (onFrameClick 2
     \<lparr>velocityY = Num 0, velocityX = Num 0, isDragging = False,
      lastPointer = (Some 0, Some 0),
      progress = 1, group = None, focusedPhotoIndex = Some 1\<rparr>) = Some 2
   \<and> focusedPhotoIndex (onFrameClick 1
     \<lparr>velocityY = Num 0, velocityX = Num 0, isDragging = False,
      lastPointer = (Some 0, Some 0),
      progress = 1, group = None, focusedPhotoIndex = Some 1\<rparr>) = None
   \<and> focusedPhotoIndex (onBackgroundClick
     \<lparr>velocityY = Num 0, velocityX = Num 0, isDragging = False,
      lastPointer = (Some 0, Some 0),
      progress = 1, group = None, focusedPhotoIndex = Some 1\<rparr>) = None"
  using focus_single_selection
    [of "\<lparr>velocityY = Num 0, velocityX = Num 0, isDragging = False,
      lastPointer = (Some 0, Some 0),
      progress = 1, group = None, focusedPhotoIndex = Some 1\<rparr>" 1 1 1 2]
  by simp

section \<open>Theorems: dust particles and spiral placement\<close>

text \<open>
  C3. The respawn test reads the height the particle had before the integration. A
  particle at height -14.999 falling at 0.002 per frame ends the frame at -15.0009,
  below the floor, with its velocity kept; only the following frame puts it back at
  height 15 with zero velocity.
\<close>

theorem particle_crossing_floor_not_respawned:
  "stepParticle \<lparr>targetX = 0, targetY = 0, isActive = False\<rparr> False (\<lambda>k. 1/2) 0
     \<lparr>pos_x = 0, pos_y = - 14.999, pos_z = 0, vel_x = 0, vel_y = - 0.002, vel_z = 0\<rparr>
   = (\<lparr>pos_x = 0, pos_y = - 15.0009, pos_z = 0, vel_x = 0, vel_y = - 0.0019, vel_z = 0\<rparr>, 0)
   \<and> stepParticle \<lparr>targetX = 0, targetY = 0, isActive = False\<rparr> False (\<lambda>k. 1/2) 0
     \<lparr>pos_x = 0, pos_y = - 15.0009, pos_z = 0, vel_x = 0, vel_y = - 0.0019, vel_z = 0\<rparr>
   = (\<lparr>pos_x = 0, pos_y = 15, pos_z = 0, vel_x = 0, vel_y = 0, vel_z = 0\<rparr>, 2)"
  by (simp add: stepParticle_def updateVelocity_def)









text \<open>
  C1. The ornaments use the number 137.5 as an angle in radians: with jitter 0 the
  ornament of index 1 gets the angle 137.5, which is passed to cosine and sine and
  stored as rotation about the vertical axis. The photo frames convert: the frame of
  index 1 gets the golden angle in radians, which is less than 4. The two differ by
  far more than the jitter of at most 0.5.
\<close>

theorem ornament_angle_taken_as_radians:
  "ornamentAngle (\<lambda>k. 0) 1 = 137.5
   \<and> t_rot (ornamentTarget \<lparr>TREE_HEIGHT = 15, TREE_RADIUS = 5\<rparr> (\<lambda>k. 0) 2 Sphere 1)
       = (0, 137.5, 0)
   \<and> frameAngle 1 = goldenAngle
   \<and> goldenAngle < 4
   \<and> ornamentAngle (\<lambda>k. 0) 1 - 1 * goldenAngle > 0.5"
proof -
  have g: "goldenAngle < 4"
    using pi_less_4 by (simp add: goldenAngle_def)
  have a: "ornamentAngle (\<lambda>k. 0) 1 = 137.5"
    by (simp add: ornamentAngle_def)
  have r: "t_rot (ornamentTarget \<lparr>TREE_HEIGHT = 15, TREE_RADIUS = 5\<rparr> (\<lambda>k. 0) 2 Sphere 1)
       = (0, 137.5, 0)"
    by (simp add: ornamentTarget_def ornamentAngle_def Let_def)
  have f: "frameAngle 1 = goldenAngle"
    by (simp add: frameAngle_def goldenAngle_def)
  show ?thesis using g a r f by simp
qed

text \<open>
  C9. For a tree of height 3 or more, the target height of every photo frame lies
  between \<open>-TREE_HEIGHT / 2 + 1\<close> and \<open>TREE_HEIGHT / 2 - 2\<close>, whatever the index,
  the count and the random draws are, and it is the second coordinate of the frame's
  target position.
\<close>

theorem frame_height_clamped:
  assumes "3 \<le> TREE_HEIGHT c"
  shows "- TREE_HEIGHT c / 2 + 1 \<le> frameHeight c rnd count i
         \<and> frameHeight c rnd count i \<le> TREE_HEIGHT c / 2 - 2
         \<and> fst (snd (frameTargetPos c rnd count i)) = frameHeight c rnd count i"
  using assms by (simp add: frameHeight_def frameTargetPos_def Let_def)

theorem frame_height_clamped_witness:
  "frameHeight \<lparr>TREE_HEIGHT = 15, TREE_RADIUS = 5\<rparr> (\<lambda>k. 99/100) 100 99 = 11/2
   \<and> frameHeight \<lparr>TREE_HEIGHT = 15, TREE_RADIUS = 5\<rparr> (\<lambda>k. 0) 100 0 = - 6
   \<and> - 15 / 2 + 1 \<le> frameHeight \<lparr>TREE_HEIGHT = 15, TREE_RADIUS = 5\<rparr> (\<lambda>k. 0) 100 0"
  using frame_height_clamped
    [of "\<lparr>TREE_HEIGHT = 15, TREE_RADIUS = 5\<rparr>" "\<lambda>k. 0" 100 0]
  by (simp add: frameHeight_def)

end
